theory Spec2Isabelle
  imports Main "HOL-Library.Char_ord" "HOL-Library.List_Lexorder"
begin

section \<open>The message consumer of \<^verbatim>\<open>consumers/project_consumer_Sean.py\<close>\<close>

text \<open>
  The script keeps two module-level variables, \<^verbatim>\<open>message_lengths\<close> (a list) and
  \<^verbatim>\<open>length_counts\<close> (a dict), and updates them once per message that it reads from a
  Kafka topic or from a file of JSON lines. The embedding below passes these variables, the
  content of the chart and the log around as an explicit state. A Python exception is a
  value: every function that can raise returns the state it has reached together with the
  exception, if any, that leaves it.
\<close>

subsection \<open>Values\<close>

text \<open>
  What \<^verbatim>\<open>json.loads\<close> returns: \<^verbatim>\<open>None\<close>, a \<^verbatim>\<open>bool\<close>, an \<^verbatim>\<open>int\<close>, a \<^verbatim>\<open>str\<close>, a
  \<^verbatim>\<open>list\<close> or a \<^verbatim>\<open>dict\<close> with string keys (an association list, read with \<open>map_of\<close>).
  JSON numbers with a fraction or an exponent (Python floats) are outside the model.
\<close>

datatype json =
    JNull
  | JBool bool
  | JInt int
  | JStr string
  | JList "json list"
  | JObject "(string \<times> json) list"

datatype exn =
  ValueError | AttributeError | TypeError | KeyError | NameError | PermissionError | KafkaError

text \<open>The calls of \<^verbatim>\<open>logger\<close>, one constructor per call site.\<close>

datatype log_entry =
    Info_start
  | Warn_fallback
  | Info_connected
  | Info_received json
  | Err_kafka exn
  | Err_no_file
  | Info_reading
  | Info_read json
  | Err_file exn
  | Info_processing json

text \<open>
  The state: the two module variables, the bars on the axes \<^verbatim>\<open>ax\<close> (position and
  height), the number of times the figure was drawn (\<^verbatim>\<open>plt.draw()\<close>), and the log.
\<close>

record state =
  message_lengths :: "json list"
  length_counts :: "(json \<times> int) list"
  ax_bars :: "(json \<times> int) list"
  draws :: nat
  logged :: "log_entry list"

type_synonym outcome = "state \<times> exn option"

definition initial_state :: state where
  "initial_state =
     \<lparr>message_lengths = [], length_counts = [], ax_bars = [], draws = 0, logged = []\<rparr>"

definition add_log :: "log_entry \<Rightarrow> state \<Rightarrow> state" where
  "add_log e s = s\<lparr>logged := logged s @ [e]\<rparr>"

subsection \<open>Python's dict, keyed by hashable values\<close>

text \<open>
  A \<^verbatim>\<open>list\<close> and a \<^verbatim>\<open>dict\<close> are unhashable: looking one up in a dict raises TypeError.
\<close>

fun hashable :: "json \<Rightarrow> bool" where
  "hashable (JList xs) = False"
| "hashable (JObject d) = False"
| "hashable v = True"

text \<open>
  Equality of dict keys is Python's \<^verbatim>\<open>==\<close>: a \<^verbatim>\<open>bool\<close> is an \<^verbatim>\<open>int\<close>
  (\<^verbatim>\<open>True == 1\<close>, \<^verbatim>\<open>False == 0\<close>), values of different kinds are different.
  Only hashable values are ever compared.
\<close>

fun num_of :: "json \<Rightarrow> int option" where
  "num_of (JInt i) = Some i"
| "num_of (JBool b) = Some (if b then 1 else 0)"
| "num_of v = None"

definition py_eq :: "json \<Rightarrow> json \<Rightarrow> bool" where
  "py_eq a b =
     (case num_of a of
        Some i \<Rightarrow> (case num_of b of Some j \<Rightarrow> i = j | None \<Rightarrow> False)
      | None \<Rightarrow> (case num_of b of Some j \<Rightarrow> False | None \<Rightarrow> a = b))"

text \<open>
  The dict \<^verbatim>\<open>length_counts\<close> is an association list in insertion order:
  \<open>dict_contains\<close> is \<^verbatim>\<open>k in d\<close>, \<open>dict_getitem\<close> is \<^verbatim>\<open>d[k]\<close> (\<open>None\<close> where Python
  raises KeyError), \<open>dict_setitem\<close> is \<^verbatim>\<open>d[k] = v\<close>, which keeps the key and the place
  of an entry that exists and appends a new one otherwise.
\<close>

fun dict_contains :: "(json \<times> int) list \<Rightarrow> json \<Rightarrow> bool" where
  "dict_contains [] k = False"
| "dict_contains ((k', c) # d) k = (if py_eq k' k then True else dict_contains d k)"

fun dict_getitem :: "(json \<times> int) list \<Rightarrow> json \<Rightarrow> int option" where
  "dict_getitem [] k = None"
| "dict_getitem ((k', c) # d) k = (if py_eq k' k then Some c else dict_getitem d k)"

fun dict_setitem :: "(json \<times> int) list \<Rightarrow> json \<Rightarrow> int \<Rightarrow> (json \<times> int) list" where
  "dict_setitem [] k v = [(k, v)]"
| "dict_setitem ((k', c) # d) k v =
     (if py_eq k' k then (k', v) # d else (k', c) # dict_setitem d k v)"

text \<open>\<^verbatim>\<open>message.get("message_length", 0)\<close> on the dict of a message.\<close>

definition dict_get :: "(string \<times> json) list \<Rightarrow> string \<Rightarrow> json \<Rightarrow> json" where
  "dict_get d k dflt = (case map_of d k of None \<Rightarrow> dflt | Some v \<Rightarrow> v)"

subsection \<open>\<^verbatim>\<open>update_chart\<close>\<close>

text \<open>
  \<^verbatim>\<open>sorted(length_counts.keys())\<close>: the keys of a dict are hashable and pairwise
  different. Numbers (with booleans) are ordered by value and strings by their characters;
  a comparison across kinds, or with \<^verbatim>\<open>None\<close>, raises TypeError; a list of at most one
  key is returned without any comparison.
\<close>

fun is_num :: "json \<Rightarrow> bool" where
  "is_num (JInt i) = True"
| "is_num (JBool b) = True"
| "is_num v = False"

fun is_str :: "json \<Rightarrow> bool" where
  "is_str (JStr x) = True"
| "is_str v = False"

fun num_val :: "json \<Rightarrow> int" where
  "num_val (JInt i) = i"
| "num_val (JBool b) = (if b then 1 else 0)"
| "num_val v = 0"

fun str_val :: "json \<Rightarrow> string" where
  "str_val (JStr x) = x"
| "str_val v = []"

definition py_sorted :: "json list \<Rightarrow> exn + json list" where
  "py_sorted ks =
     (if length ks \<le> 1 then Inr ks
      else if list_all is_num ks then Inr (sort_key num_val ks)
      else if list_all is_str ks then Inr (sort_key str_val ks)
      else Inl TypeError)"

text \<open>
  The calls into matplotlib are taken to do what they are asked: \<^verbatim>\<open>ax.clear()\<close> removes
  the bars, \<^verbatim>\<open>ax.bar\<close> puts one bar per key, \<^verbatim>\<open>plt.draw()\<close> draws the figure.
\<close>

definition update_chart :: "state \<Rightarrow> outcome" where
  "update_chart s0 =
     (let s1 = s0\<lparr>ax_bars := []\<rparr> in
      if message_lengths s1 = [] then (s1, None)
      else
        (case py_sorted (map fst (length_counts s1)) of
           Inl e \<Rightarrow> (s1, Some e)
         | Inr sorted_lengths \<Rightarrow>
             (case those (map (dict_getitem (length_counts s1)) sorted_lengths) of
                None \<Rightarrow> (s1, Some KeyError)
              | Some counts \<Rightarrow>
                  (s1\<lparr>ax_bars := zip sorted_lengths counts, draws := Suc (draws s1)\<rparr>, None))))"

subsection \<open>\<^verbatim>\<open>process_message\<close>\<close>

text \<open>
  A value that is not a dict has no method \<^verbatim>\<open>get\<close> (AttributeError). The length is
  appended to \<^verbatim>\<open>message_lengths\<close> before it is looked up in \<^verbatim>\<open>length_counts\<close>, so
  an unhashable length stays in the list although the lookup raises.
\<close>

definition process_message :: "state \<Rightarrow> json \<Rightarrow> outcome" where
  "process_message s0 message =
     (let s1 = add_log (Info_processing message) s0 in
      case message of
        JObject d \<Rightarrow>
          (let message_length = dict_get d ''message_length'' (JInt 0);
               s2 = s1\<lparr>message_lengths := message_lengths s1 @ [message_length]\<rparr>
           in
             if \<not> hashable message_length then (s2, Some TypeError)
             else if dict_contains (length_counts s2) message_length then
               (case dict_getitem (length_counts s2) message_length of
                  None \<Rightarrow> (s2, Some KeyError)
                | Some c \<Rightarrow>
                    update_chart
                      (s2\<lparr>length_counts :=
                            dict_setitem (length_counts s2) message_length (c + 1)\<rparr>))
             else
               update_chart
                 (s2\<lparr>length_counts := dict_setitem (length_counts s2) message_length 1\<rparr>))
      | other \<Rightarrow> (s1, Some AttributeError))"

text \<open>
  A sequence of calls as both consumption loops make them: the next message is processed
  only when the previous call has returned.
\<close>

fun process_all :: "state \<Rightarrow> json list \<Rightarrow> outcome" where
  "process_all s [] = (s, None)"
| "process_all s (m # ms) =
     (case process_message s m of
        (s', None) \<Rightarrow> process_all s' ms
      | (s', Some e) \<Rightarrow> (s', Some e))"

subsection \<open>The two sources and \<^verbatim>\<open>main\<close>\<close>

text \<open>
  What the run finds outside the program: whether the import of \<^verbatim>\<open>kafka\<close> succeeded,
  the broker, the data file, and the two decoders, \<open>None\<close> where they raise:
  \<open>loads_line\<close> stands for \<^verbatim>\<open>json.loads(line.strip())\<close>, \<open>value_deserializer\<close> for
  \<^verbatim>\<open>json.loads(x.decode("utf-8"))\<close>.
  The data file is in one of four conditions. \<open>Stat_fails\<close>: \<^verbatim>\<open>DATA_FILE.exists()\<close>
  itself raises (PermissionError, when the data folder cannot be searched); the call stands
  before the \<^verbatim>\<open>try\<close>. \<open>Absent\<close>: \<^verbatim>\<open>exists()\<close> is false. \<open>Open_fails\<close>: the file
  exists and \<^verbatim>\<open>DATA_FILE.open("r")\<close>, inside the \<^verbatim>\<open>try\<close>, raises. \<open>Lines\<close>: the file is
  read, line by line.
  A broker that is reached delivers records for as long as the program runs; \<open>Serving\<close>
  holds the payloads delivered in the part of the run that is observed.
  Where the import failed the name \<^verbatim>\<open>KafkaConsumer\<close> is not bound, and using it raises
  NameError; a broker that cannot be reached makes the constructor raise (KafkaError).
\<close>

datatype broker = Unreachable | Serving "string list"

datatype data_file = Stat_fails | Absent | Open_fails | Lines "string list"

record world =
  KAFKA_AVAILABLE :: bool
  kafka_broker :: broker
  DATA_FILE :: data_file
  loads_line :: "string \<Rightarrow> json option"
  value_deserializer :: "string \<Rightarrow> json option"

text \<open>The body of \<^verbatim>\<open>for message in consumer\<close>; the deserializer runs in the iterator.\<close>

fun kafka_loop :: "(string \<Rightarrow> json option) \<Rightarrow> state \<Rightarrow> string list \<Rightarrow> outcome" where
  "kafka_loop des s [] = (s, None)"
| "kafka_loop des s (payload # rest) =
     (case des payload of
        None \<Rightarrow> (s, Some ValueError)
      | Some v \<Rightarrow>
          (case process_message (add_log (Info_received v) s) v of
             (s', None) \<Rightarrow> kafka_loop des s' rest
           | (s', Some e) \<Rightarrow> (s', Some e)))"

text \<open>
  \<^verbatim>\<open>try: ... except Exception as e: logger.error(...)\<close>: the exception that leaves the
  body is logged, and the function returns.
\<close>

definition except_log :: "(exn \<Rightarrow> log_entry) \<Rightarrow> outcome \<Rightarrow> outcome" where
  "except_log entry r =
     (case r of (s, None) \<Rightarrow> (s, None) | (s, Some e) \<Rightarrow> (add_log (entry e) s, None))"

definition consume_from_kafka :: "world \<Rightarrow> state \<Rightarrow> outcome" where
  "consume_from_kafka w s =
     except_log Err_kafka
       (if \<not> KAFKA_AVAILABLE w then (s, Some NameError)
        else
          (case kafka_broker w of
             Unreachable \<Rightarrow> (s, Some KafkaError)
           | Serving payloads \<Rightarrow>
               kafka_loop (value_deserializer w) (add_log Info_connected s) payloads))"

text \<open>The body of \<^verbatim>\<open>for line in f\<close> (the pause of one second leaves the state as it is).\<close>

fun file_loop :: "(string \<Rightarrow> json option) \<Rightarrow> state \<Rightarrow> string list \<Rightarrow> outcome" where
  "file_loop loads s [] = (s, None)"
| "file_loop loads s (line # rest) =
     (case loads line of
        None \<Rightarrow> (s, Some ValueError)
      | Some message \<Rightarrow>
          (case process_message (add_log (Info_read message) s) message of
             (s', None) \<Rightarrow> file_loop loads s' rest
           | (s', Some e) \<Rightarrow> (s', Some e)))"

definition consume_from_file :: "world \<Rightarrow> state \<Rightarrow> outcome" where
  "consume_from_file w s =
     (case DATA_FILE w of
        Stat_fails \<Rightarrow> (s, Some PermissionError)
      | Absent \<Rightarrow> (add_log Err_no_file s, None)
      | Open_fails \<Rightarrow> except_log Err_file (add_log Info_reading s, Some PermissionError)
      | Lines lines \<Rightarrow>
          except_log Err_file (file_loop (loads_line w) (add_log Info_reading s) lines))"

text \<open>
  \<^verbatim>\<open>main\<close>: the calls \<^verbatim>\<open>plt.ioff()\<close> and \<^verbatim>\<open>plt.show()\<close> that follow the consumption
  leave the module variables, the bars and the log as they are.
\<close>

definition main :: "world \<Rightarrow> outcome" where
  "main w =
     (let s = add_log Info_start initial_state in
      if KAFKA_AVAILABLE w then consume_from_kafka w s
      else consume_from_file w (add_log Warn_fallback s))"

subsection \<open>Notions used in the statements\<close>

text \<open>
  The sum of the counts of the histogram, and the count of one bucket (0 where the
  histogram has no bucket for the key).
\<close>

definition hist_total :: "(json \<times> int) list \<Rightarrow> int" where
  "hist_total h = sum_list (map snd h)"

definition count_of :: "(json \<times> int) list \<Rightarrow> json \<Rightarrow> int" where
  "count_of h k = (case dict_getitem h k of None \<Rightarrow> 0 | Some c \<Rightarrow> c)"

text \<open>
  A key that is an integer and not negative, and a message whose length (the field, or the
  default) is such a value; a value that is not a dict is never given a length.
\<close>

fun nonneg_int :: "json \<Rightarrow> bool" where
  "nonneg_int (JInt i) = (0 \<le> i)"
| "nonneg_int v = False"

fun nonneg_length :: "json \<Rightarrow> bool" where
  "nonneg_length (JObject d) = nonneg_int (dict_get d ''message_length'' (JInt 0))"
| "nonneg_length v = True"

text \<open>
  The lengths that a sequence of messages carries: for each message object its field
  \<^verbatim>\<open>message_length\<close>, or the default 0; a value that is not a dict carries none.
\<close>

fun carried_lengths :: "json list \<Rightarrow> json list" where
  "carried_lengths [] = []"
| "carried_lengths (JObject d # ms) = dict_get d ''message_length'' (JInt 0) # carried_lengths ms"
| "carried_lengths (v # ms) = carried_lengths ms"


text \<open>
  A run in which the Kafka library is installed, the broker cannot be reached, and the data
  file holds one well-formed record.
\<close>

definition unreachable_broker_world :: world where
  \<open>unreachable_broker_world =
     \<lparr>KAFKA_AVAILABLE = True, kafka_broker = Unreachable,
      DATA_FILE = Lines [''{"message_length": 5}''],
      loads_line = map_of [(''{"message_length": 5}'', JObject [(''message_length'', JInt 5)])],
      value_deserializer = map_of []\<rparr>\<close>

section \<open>Properties\<close>

subsection \<open>The dict operations\<close>

lemma py_eq_refl: "py_eq k k"
  by (simp add: py_eq_def split: option.splits)

lemma dict_contains_getitem: "dict_contains h k = (dict_getitem h k \<noteq> None)"
  by (induction h) (auto split: if_splits)

lemma getitem_setitem_same: "dict_getitem (dict_setitem h k v) k = Some v"
  by (induction h) (auto simp: py_eq_refl)

lemma hist_total_setitem:
  "hist_total (dict_setitem h k v) = hist_total h - count_of h k + v"
  by (induction h) (auto simp: hist_total_def count_of_def)

lemma update_chart_frame:
  "message_lengths (fst (update_chart s)) = message_lengths s"
  "length_counts (fst (update_chart s)) = length_counts s"
  "logged (fst (update_chart s)) = logged s"
  by (auto simp: update_chart_def Let_def split: sum.splits option.splits)

lemma process_message_lengths:
  "message_lengths (fst (process_message s (JObject d))) =
     message_lengths s @ [dict_get d ''message_length'' (JInt 0)]"
  by (auto simp: process_message_def Let_def add_log_def update_chart_frame split: option.splits)

lemma process_message_counts_hashable:
  "hashable (dict_get d ''message_length'' (JInt 0)) \<Longrightarrow>
   length_counts (fst (process_message s (JObject d))) =
     dict_setitem (length_counts s) (dict_get d ''message_length'' (JInt 0))
       (count_of (length_counts s) (dict_get d ''message_length'' (JInt 0)) + 1)"
  by (auto simp: process_message_def Let_def add_log_def update_chart_frame count_of_def
      dict_contains_getitem split: option.splits)

lemma process_message_unhashable:
  "\<not> hashable (dict_get d ''message_length'' (JInt 0)) \<Longrightarrow>
   length_counts (fst (process_message s (JObject d))) = length_counts s \<and>
   snd (process_message s (JObject d)) = Some TypeError"
  by (auto simp: process_message_def Let_def add_log_def)

lemma process_message_not_object:
  "(\<And>d. m \<noteq> JObject d) \<Longrightarrow> process_message s m = (add_log (Info_processing m) s, Some AttributeError)"
  by (cases m) (auto simp: process_message_def Let_def)

lemma process_message_ok_hashable:
  "process_message s m = (s', None) \<Longrightarrow>
     \<exists>d. m = JObject d \<and> hashable (dict_get d ''message_length'' (JInt 0))"
  by (cases m) (auto simp: process_message_def Let_def split: if_splits)

lemma process_message_total_ok:
  assumes "process_message s m = (s', None)"
  shows "hist_total (length_counts s') = hist_total (length_counts s) + 1"
proof -
  from assms obtain d where m: "m = JObject d"
    and h: "hashable (dict_get d ''message_length'' (JInt 0))"
    using process_message_ok_hashable by blast
  have "length_counts s' = length_counts (fst (process_message s (JObject d)))"
    using assms m by simp
  then show ?thesis
    using process_message_counts_hashable [OF h, of s] by (simp add: hist_total_setitem)
qed

lemma process_all_total:
  "process_all s ms = (s', None) \<Longrightarrow>
     hist_total (length_counts s') = hist_total (length_counts s) + int (length ms)"
proof (induction ms arbitrary: s)
  case Nil
  then show ?case by simp
next
  case (Cons m ms)
  then show ?case
    by (auto split: prod.splits option.splits dest!: process_message_total_ok)
qed


lemma process_all_append:
  "process_all s (xs @ ys) =
     (case process_all s xs of (s1, None) \<Rightarrow> process_all s1 ys | (s1, Some e) \<Rightarrow> (s1, Some e))"
  by (induction xs arbitrary: s) (auto split: prod.splits option.splits)

lemma count_of_setitem_same: "count_of (dict_setitem h k v) k = v"
  by (simp add: count_of_def getitem_setitem_same)

lemma setitem_new: "\<not> dict_contains h k \<Longrightarrow> dict_setitem h k v = h @ [(k, v)]"
  by (induction h) (auto split: if_splits)

lemma process_message_bucket:
  "hashable (dict_get d ''message_length'' (JInt 0)) \<Longrightarrow>
   count_of (length_counts (fst (process_message s (JObject d))))
       (dict_get d ''message_length'' (JInt 0)) =
     count_of (length_counts s) (dict_get d ''message_length'' (JInt 0)) + 1"
  by (simp add: process_message_counts_hashable count_of_setitem_same)

lemma setitem_positive:
  "list_all (\<lambda>kc. 0 < snd kc) h \<Longrightarrow> 0 < v \<Longrightarrow> list_all (\<lambda>kc. 0 < snd kc) (dict_setitem h k v)"
  by (induction h) auto

lemma count_of_nonneg: "list_all (\<lambda>kc. 0 < snd kc) h \<Longrightarrow> 0 \<le> count_of h k"
  by (induction h) (auto simp: count_of_def)

lemma setitem_keys:
  "list_all (\<lambda>kc. P (fst kc)) h \<Longrightarrow> P k \<Longrightarrow> list_all (\<lambda>kc. P (fst kc)) (dict_setitem h k v)"
  by (induction h) auto

lemma process_message_counts_cases:
  "length_counts (fst (process_message s m)) = length_counts s \<or>
   (\<exists>d. m = JObject d \<and> hashable (dict_get d ''message_length'' (JInt 0)) \<and>
     length_counts (fst (process_message s m)) =
       dict_setitem (length_counts s) (dict_get d ''message_length'' (JInt 0))
         (count_of (length_counts s) (dict_get d ''message_length'' (JInt 0)) + 1))"
proof (cases m)
  case (JObject d)
  then show ?thesis
    using process_message_counts_hashable [of d s] process_message_unhashable [of d s]
    by (cases "hashable (dict_get d ''message_length'' (JInt 0))") auto
qed (simp_all add: process_message_def Let_def add_log_def)

lemma process_message_positive:
  assumes "list_all (\<lambda>kc. 0 < snd kc) (length_counts s)"
  shows "list_all (\<lambda>kc. 0 < snd kc) (length_counts (fst (process_message s m)))"
  using process_message_counts_cases [of s m] assms
    count_of_nonneg [OF assms]
  by (auto intro!: setitem_positive simp: add_pos_nonneg add.commute intro: add_nonneg_pos)

lemma process_message_keys:
  assumes "list_all (\<lambda>kc. nonneg_int (fst kc)) (length_counts s)" and "nonneg_length m"
  shows "list_all (\<lambda>kc. nonneg_int (fst kc)) (length_counts (fst (process_message s m)))"
  using process_message_counts_cases [of s m] assms
  by (auto intro!: setitem_keys [where P = nonneg_int])

lemma process_all_positive:
  "list_all (\<lambda>kc. 0 < snd kc) (length_counts s) \<Longrightarrow>
   list_all (\<lambda>kc. 0 < snd kc) (length_counts (fst (process_all s ms)))"
proof (induction ms arbitrary: s)
  case Nil
  then show ?case by simp
next
  case (Cons m ms)
  obtain s1 e1 where p: "process_message s m = (s1, e1)"
    by (cases "process_message s m")
  have "list_all (\<lambda>kc. 0 < snd kc) (length_counts s1)"
    using process_message_positive [OF Cons.prems, of m] p by simp
  with Cons.IH [of s1] p show ?case
    by (cases e1) simp_all
qed

lemma process_all_keys:
  "list_all (\<lambda>kc. nonneg_int (fst kc)) (length_counts s) \<Longrightarrow> list_all nonneg_length ms \<Longrightarrow>
   list_all (\<lambda>kc. nonneg_int (fst kc)) (length_counts (fst (process_all s ms)))"
proof (induction ms arbitrary: s)
  case Nil
  then show ?case by simp
next
  case (Cons m ms)
  obtain s1 e1 where p: "process_message s m = (s1, e1)"
    by (cases "process_message s m")
  have "list_all (\<lambda>kc. nonneg_int (fst kc)) (length_counts s1)"
    using process_message_keys [of s m] Cons.prems p by simp
  with Cons.IH [of s1] Cons.prems p show ?case
    by (cases e1) simp_all
qed

subsection \<open>The keys of the histogram\<close>

lemma setitem_keys_mem:
  "(x, c) \<in> set (dict_setitem h k v) \<Longrightarrow> x = k \<or> x \<in> fst ` set h"
proof (induction h)
  case Nil
  then show ?case by simp
next
  case (Cons e h)
  obtain k' c' where e: "e = (k', c')"
    by (cases e)
  show ?case
  proof (cases "py_eq k' k")
    case True
    with Cons.prems e show ?thesis by force
  next
    case False
    with Cons.prems e have "(x, c) = (k', c') \<or> (x, c) \<in> set (dict_setitem h k v)"
      by simp
    with Cons.IH e show ?thesis by force
  qed
qed

lemma setitem_keys_subset: "set (map fst (dict_setitem h k v)) \<subseteq> insert k (set (map fst h))"
proof
  fix x
  assume "x \<in> set (map fst (dict_setitem h k v))"
  then obtain c where "(x, c) \<in> set (dict_setitem h k v)"
    by auto
  then have "x = k \<or> x \<in> fst ` set h"
    by (rule setitem_keys_mem)
  then show "x \<in> insert k (set (map fst h))"
    by auto
qed

lemma contains_setitem_same: "dict_contains (dict_setitem h k v) k"
  by (induction h) (auto simp: py_eq_refl)

lemma contains_setitem_mono: "dict_contains h k' \<Longrightarrow> dict_contains (dict_setitem h k v) k'"
  by (induction h) (auto split: if_splits)

lemma process_message_keys_subset:
  "set (map fst (length_counts (fst (process_message s m)))) \<subseteq>
     set (map fst (length_counts s)) \<union> set (carried_lengths [m])"
proof -
  consider (same) "length_counts (fst (process_message s m)) = length_counts s"
    | (bumped) d where "m = JObject d"
        "length_counts (fst (process_message s m)) =
           dict_setitem (length_counts s) (dict_get d ''message_length'' (JInt 0))
             (count_of (length_counts s) (dict_get d ''message_length'' (JInt 0)) + 1)"
    using process_message_counts_cases [of s m] by blast
  then show ?thesis
  proof cases
    case same
    then show ?thesis by simp
  next
    case bumped
    have "set (map fst (length_counts (fst (process_message s m)))) \<subseteq>
        insert (dict_get d ''message_length'' (JInt 0)) (set (map fst (length_counts s)))"
      unfolding bumped(2) by (rule setitem_keys_subset)
    then show ?thesis
      unfolding bumped(1) by auto
  qed
qed

lemma process_message_contains_mono:
  "dict_contains (length_counts s) k \<Longrightarrow>
   dict_contains (length_counts (fst (process_message s m))) k"
  using process_message_counts_cases [of s m] by (auto intro: contains_setitem_mono)

lemma process_message_ok_contains:
  assumes "process_message s m = (s', None)"
  shows "list_all (dict_contains (length_counts s')) (carried_lengths [m])"
proof -
  from assms obtain d where m: "m = JObject d"
    and h: "hashable (dict_get d ''message_length'' (JInt 0))"
    using process_message_ok_hashable by blast
  have "length_counts s' = length_counts (fst (process_message s (JObject d)))"
    using assms m by simp
  then show ?thesis
    using process_message_counts_hashable [OF h, of s] m by (simp add: contains_setitem_same)
qed

lemma carried_lengths_Cons: "carried_lengths (m # ms) = carried_lengths [m] @ carried_lengths ms"
  by (cases m) simp_all

lemma process_all_keys_subset:
  "set (map fst (length_counts (fst (process_all s ms)))) \<subseteq>
     set (map fst (length_counts s)) \<union> set (carried_lengths ms)"
proof (induction ms arbitrary: s)
  case Nil
  then show ?case by simp
next
  case (Cons m ms)
  obtain s1 e1 where p: "process_message s m = (s1, e1)"
    by (cases "process_message s m")
  have a: "set (map fst (length_counts s1)) \<subseteq>
      set (map fst (length_counts s)) \<union> set (carried_lengths [m])"
    using process_message_keys_subset [of s m] p by simp
  show ?case
  proof (cases e1)
    case None
    then have "process_all s (m # ms) = process_all s1 ms"
      using p by simp
    then show ?thesis
      using Cons.IH [of s1] a carried_lengths_Cons [of m ms] by auto
  next
    case (Some e)
    then have "process_all s (m # ms) = (s1, Some e)"
      using p by simp
    then show ?thesis
      using a carried_lengths_Cons [of m ms] by auto
  qed
qed

lemma process_all_contains_mono:
  "dict_contains (length_counts s) k \<Longrightarrow>
   dict_contains (length_counts (fst (process_all s ms))) k"
proof (induction ms arbitrary: s)
  case Nil
  then show ?case by simp
next
  case (Cons m ms)
  obtain s1 e1 where p: "process_message s m = (s1, e1)"
    by (cases "process_message s m")
  have "dict_contains (length_counts s1) k"
    using process_message_contains_mono [OF Cons.prems, of m] p by simp
  with Cons.IH [of s1] p show ?case
    by (cases e1) simp_all
qed

lemma process_all_ok_contains:
  "snd (process_all s ms) = None \<Longrightarrow>
   list_all (dict_contains (length_counts (fst (process_all s ms)))) (carried_lengths ms)"
proof (induction ms arbitrary: s)
  case Nil
  then show ?case by simp
next
  case (Cons m ms)
  obtain s1 e1 where p: "process_message s m = (s1, e1)"
    by (cases "process_message s m")
  from Cons.prems p have e1: "e1 = None"
    by (cases e1) simp_all
  then have r: "process_all s (m # ms) = process_all s1 ms"
    using p by simp
  have "list_all (dict_contains (length_counts s1)) (carried_lengths [m])"
    using process_message_ok_contains [of s m s1] p e1 by simp
  then have a: "list_all (dict_contains (length_counts (fst (process_all s1 ms)))) (carried_lengths [m])"
    using process_all_contains_mono [of s1 _ ms] by (auto simp: list_all_iff)
  have b: "list_all (dict_contains (length_counts (fst (process_all s1 ms)))) (carried_lengths ms)"
    using Cons.IH [of s1] Cons.prems r by simp
  show ?case
    using a b r carried_lengths_Cons [of m ms] by simp
qed

subsection \<open>Messages with integer lengths are processed without an exception\<close>

lemma is_num_hashable: "is_num v \<Longrightarrow> hashable v"
  by (cases v) auto

lemma those_map_defined:
  "list_all (\<lambda>x. f x \<noteq> None) xs \<Longrightarrow> those (map f xs) \<noteq> None"
  by (induction xs) auto

lemma getitem_of_key: "(k, c) \<in> set h \<Longrightarrow> dict_getitem h k \<noteq> None"
  by (induction h) (auto simp: py_eq_refl)

lemma py_sorted_num:
  "list_all is_num ks \<Longrightarrow> \<exists>ks'. py_sorted ks = Inr ks' \<and> set ks' = set ks"
  by (auto simp: py_sorted_def)

lemma update_chart_num_ok:
  assumes "list_all is_num (map fst (length_counts s))"
  shows "snd (update_chart s) = None"
proof -
  obtain ks where ks: "py_sorted (map fst (length_counts s)) = Inr ks"
    and eq: "set ks = set (map fst (length_counts s))"
    using py_sorted_num [OF assms] by blast
  have "list_all (\<lambda>k. dict_getitem (length_counts s) k \<noteq> None) ks"
    using eq getitem_of_key [of _ _ "length_counts s"] by (auto simp: list_all_iff)
  then have "those (map (dict_getitem (length_counts s)) ks) \<noteq> None"
    by (rule those_map_defined)
  then show ?thesis
    by (auto simp: update_chart_def Let_def ks split: option.splits)
qed

lemma process_message_num_ok:
  assumes "list_all is_num (map fst (length_counts s))"
    and "is_num (dict_get d ''message_length'' (JInt 0))"
  shows "snd (process_message s (JObject d)) = None"
proof -
  let ?v = "dict_get d ''message_length'' (JInt 0)"
  have k: "list_all (\<lambda>kc. is_num (fst kc)) (length_counts s)"
    using assms(1) by (simp add: list_all_iff)
  have "list_all is_num (map fst (dict_setitem (length_counts s) ?v c))" for c
    using setitem_keys [where P = is_num, OF k assms(2)] by (simp add: list_all_iff)
  then show ?thesis
    using is_num_hashable [OF assms(2)]
    by (auto simp: process_message_def Let_def add_log_def dict_contains_getitem
        intro!: update_chart_num_ok)
qed

subsection \<open>The consumption loops\<close>




lemma file_loop_step:
  assumes "loads l = Some (JObject d)"
    and "list_all is_num (map fst (length_counts s))"
    and "map_of d ''message_length'' = Some (JInt n)"
  shows "file_loop loads s (l # rest) =
           file_loop loads (fst (process_message (add_log (Info_read (JObject d)) s) (JObject d))) rest"
    and "length_counts (fst (process_message (add_log (Info_read (JObject d)) s) (JObject d))) =
           dict_setitem (length_counts s) (JInt n) (count_of (length_counts s) (JInt n) + 1)"
    and "message_lengths (fst (process_message (add_log (Info_read (JObject d)) s) (JObject d))) =
           message_lengths s @ [JInt n]"
proof -
  let ?s = "add_log (Info_read (JObject d)) s"
  have v: "dict_get d ''message_length'' (JInt 0) = JInt n"
    using assms(3) by (simp add: dict_get_def)
  have c: "length_counts ?s = length_counts s" "message_lengths ?s = message_lengths s"
    by (simp_all add: add_log_def)
  have "snd (process_message ?s (JObject d)) = None"
    using process_message_num_ok [of ?s d] assms(2) by (simp add: v c)
  then show "file_loop loads s (l # rest) =
           file_loop loads (fst (process_message ?s (JObject d))) rest"
    using assms(1) by (cases "process_message ?s (JObject d)") simp
  show "length_counts (fst (process_message ?s (JObject d))) =
           dict_setitem (length_counts s) (JInt n) (count_of (length_counts s) (JInt n) + 1)"
    using process_message_counts_hashable [of d ?s] by (simp add: v c)
  show "message_lengths (fst (process_message ?s (JObject d))) = message_lengths s @ [JInt n]"
    using process_message_lengths [of ?s d] by (simp add: v c)
qed

subsection \<open>The claims\<close>

text \<open>
  C1. Over every sequence of messages that are all processed without an exception, from
  the empty module state, the counts of the histogram add up to the number of messages
  processed so far: after each of the calls (the first \<open>n\<close> messages, for every \<open>n\<close>),
  the call has returned normally and the sum of the counts is \<open>n\<close>.
\<close>

theorem histogram_total_counts_processed:
  assumes "snd (process_all initial_state ms) = None" and "n \<le> length ms"
  shows "snd (process_all initial_state (take n ms)) = None \<and>
         hist_total (length_counts (fst (process_all initial_state (take n ms)))) = int n"
proof -
  obtain s1 e1 where p: "process_all initial_state (take n ms) = (s1, e1)"
    by (cases "process_all initial_state (take n ms)")
  have "process_all initial_state ms =
          (case e1 of None \<Rightarrow> process_all s1 (drop n ms) | Some e \<Rightarrow> (s1, Some e))"
    using process_all_append [of initial_state "take n ms" "drop n ms"]
    by (simp add: p split: option.splits)
  with assms(1) have e1: "e1 = None"
    by (cases e1) auto
  have "hist_total (length_counts s1) =
          hist_total (length_counts initial_state) + int (length (take n ms))"
    using p e1 process_all_total by blast
  with assms(2) p e1 show ?thesis
    by (simp add: initial_state_def hist_total_def)
qed

theorem histogram_total_counts_processed_witness:
  "snd (process_all initial_state
          [JObject [(''message_length'', JInt 3)], JObject [], JObject [(''message_length'', JInt 3)]]) = None \<and>
   (2::nat) \<le> length [JObject [(''message_length'', JInt 3)], JObject [], JObject [(''message_length'', JInt 3)]] \<and>
   snd (process_all initial_state
          (take 2 [JObject [(''message_length'', JInt 3)], JObject [], JObject [(''message_length'', JInt 3)]])) = None \<and>
   hist_total (length_counts (fst (process_all initial_state
          (take 2 [JObject [(''message_length'', JInt 3)], JObject [], JObject [(''message_length'', JInt 3)]])))) = 2"
proof -
  let ?ms = "[JObject [(''message_length'', JInt 3)], JObject [], JObject [(''message_length'', JInt 3)]]"
  have a: "snd (process_all initial_state ?ms) = None"
    by (simp add: process_message_def update_chart_def py_sorted_def dict_get_def add_log_def
        initial_state_def py_eq_def Let_def)
  have b: "(2::nat) \<le> length ?ms" by simp
  show ?thesis
    using a b histogram_total_counts_processed [OF a b] by simp
qed

text \<open>
  C3. Processing a message object without the field \<^verbatim>\<open>message_length\<close> appends the
  default 0 to the sample list and adds one to the count of the bucket for 0, in every
  state (the bucket counts 0 where the histogram has none).
\<close>

theorem missing_length_counts_as_zero:
  assumes "map_of d ''message_length'' = None"
  shows "message_lengths (fst (process_message s (JObject d))) = message_lengths s @ [JInt 0] \<and>
         count_of (length_counts (fst (process_message s (JObject d)))) (JInt 0) =
           count_of (length_counts s) (JInt 0) + 1"
proof -
  have v: "dict_get d ''message_length'' (JInt 0) = JInt 0"
    using assms by (simp add: dict_get_def)
  have "hashable (dict_get d ''message_length'' (JInt 0))"
    by (simp add: v)
  from process_message_bucket [OF this, of s] process_message_lengths [of s d] v
  show ?thesis by simp
qed

theorem missing_length_counts_as_zero_witness:
  "map_of [(''message'', JStr ''hello'')] ''message_length'' = None \<and>
   message_lengths (fst (process_message initial_state (JObject [(''message'', JStr ''hello'')]))) =
     message_lengths initial_state @ [JInt 0] \<and>
   count_of (length_counts (fst (process_message initial_state
       (JObject [(''message'', JStr ''hello'')])))) (JInt 0) =
     count_of (length_counts initial_state) (JInt 0) + 1"
proof -
  have a: "map_of [(''message'', JStr ''hello'')] ''message_length'' = None" by simp
  show ?thesis
    using a missing_length_counts_as_zero [OF a, of initial_state] by simp
qed

text \<open>
  C4, as stated, fails on a message whose length cannot be a dict key: for the message
  \<^verbatim>\<open>{"message_length": []}\<close> each call raises TypeError at the lookup and no count changes.
\<close>

theorem unhashable_length_twice_counterexample:
  "snd (process_message initial_state (JObject [(''message_length'', JList [])])) = Some TypeError \<and>
   count_of (length_counts (fst (process_message
       (fst (process_message initial_state (JObject [(''message_length'', JList [])])))
       (JObject [(''message_length'', JList [])])))) (JList []) \<noteq>
     count_of (length_counts initial_state) (JList []) + 2"
  by (simp add: process_message_def dict_get_def add_log_def initial_state_def Let_def
      count_of_def)

text \<open>
  C4, amended. For every message object whose length (the field, or the default 0) is
  hashable (null, a boolean, an integer or a string) and for every state, processing the
  message and then processing it again in the resulting state leaves the count of the
  bucket of that length 2 greater than it was: there is no deduplication.
\<close>

theorem same_message_twice_adds_two:
  assumes "hashable (dict_get d ''message_length'' (JInt 0))"
  shows "count_of (length_counts (fst (process_message (fst (process_message s (JObject d)))
             (JObject d)))) (dict_get d ''message_length'' (JInt 0)) =
           count_of (length_counts s) (dict_get d ''message_length'' (JInt 0)) + 2"
  using process_message_bucket [OF assms, of "fst (process_message s (JObject d))"]
    process_message_bucket [OF assms, of s]
  by simp

theorem same_message_twice_adds_two_witness:
  "hashable (dict_get [(''message_length'', JInt 5)] ''message_length'' (JInt 0)) \<and>
   count_of (length_counts (fst (process_message
       (fst (process_message initial_state (JObject [(''message_length'', JInt 5)])))
       (JObject [(''message_length'', JInt 5)]))))
     (dict_get [(''message_length'', JInt 5)] ''message_length'' (JInt 0)) =
   count_of (length_counts initial_state)
     (dict_get [(''message_length'', JInt 5)] ''message_length'' (JInt 0)) + 2"
proof -
  have a: "hashable (dict_get [(''message_length'', JInt 5)] ''message_length'' (JInt 0))"
    by (simp add: dict_get_def)
  show ?thesis
    using a same_message_twice_adds_two [OF a, of initial_state] by simp
qed

text \<open>
  C7, as stated, fails on the keys: the length of a message is not checked, and a message
  with the length -1 is processed normally and gives the histogram the key -1.
\<close>

theorem negative_length_key_counterexample:
  "length_counts (fst (process_all initial_state [JObject [(''message_length'', JInt (- 1))]])) =
     [(JInt (- 1), 1)] \<and>
   snd (process_all initial_state [JObject [(''message_length'', JInt (- 1))]]) = None \<and>
   \<not> nonneg_int (JInt (- 1))"
  by (simp add: process_message_def update_chart_def py_sorted_def dict_get_def add_log_def
      initial_state_def py_eq_def Let_def)

text \<open>
  C7, amended. In every state reached by processing a sequence of messages from the empty
  module state, every count of the histogram is a positive integer, and every key is a
  length that one of the messages carried (its field, or the default 0), so the keys are
  whatever the messages held, of either sign and of any hashable kind. After a sequence
  processed without an exception, every length carried has a bucket. Where every message
  object of the sequence has a length that is a non-negative integer, every key of the
  histogram is a non-negative integer.
\<close>

theorem histogram_counts_positive:
  "list_all (\<lambda>kc. 0 < snd kc) (length_counts (fst (process_all initial_state ms))) \<and>
   set (map fst (length_counts (fst (process_all initial_state ms)))) \<subseteq>
     set (carried_lengths ms) \<and>
   (snd (process_all initial_state ms) = None \<longrightarrow>
    list_all (dict_contains (length_counts (fst (process_all initial_state ms))))
      (carried_lengths ms)) \<and>
   (list_all nonneg_length ms \<longrightarrow>
    list_all (\<lambda>kc. nonneg_int (fst kc)) (length_counts (fst (process_all initial_state ms))))"
  using process_all_positive [of initial_state ms] process_all_keys [of initial_state ms]
    process_all_keys_subset [of initial_state ms] process_all_ok_contains [of initial_state ms]
  by (simp add: initial_state_def)

theorem histogram_counts_positive_witness:
  "list_all nonneg_length [JObject [(''message_length'', JInt 4)], JObject []] \<and>
   snd (process_all initial_state [JObject [(''message_length'', JInt 4)], JObject []]) = None \<and>
   list_all (\<lambda>kc. 0 < snd kc) (length_counts (fst (process_all initial_state
     [JObject [(''message_length'', JInt 4)], JObject []]))) \<and>
   set (map fst (length_counts (fst (process_all initial_state
     [JObject [(''message_length'', JInt 4)], JObject []])))) \<subseteq> set [JInt 4, JInt 0] \<and>
   list_all (dict_contains (length_counts (fst (process_all initial_state
     [JObject [(''message_length'', JInt 4)], JObject []])))) [JInt 4, JInt 0] \<and>
   list_all (\<lambda>kc. nonneg_int (fst kc)) (length_counts (fst (process_all initial_state
     [JObject [(''message_length'', JInt 4)], JObject []])))"
proof -
  let ?ms = "[JObject [(''message_length'', JInt 4)], JObject []]"
  have a: "list_all nonneg_length ?ms"
    by (simp add: dict_get_def)
  have b: "snd (process_all initial_state ?ms) = None"
    by (simp add: process_message_def update_chart_def py_sorted_def dict_get_def add_log_def
        initial_state_def py_eq_def Let_def)
  have c: "carried_lengths ?ms = [JInt 4, JInt 0]"
    by (simp add: dict_get_def)
  note t = histogram_counts_positive [of ?ms, unfolded c]
  from a b t show ?thesis by blast
qed

text \<open>
  C9. Whenever the sample list is empty, \<^verbatim>\<open>update_chart\<close> returns normally after clearing
  the axes: no bar is put on the axes, the figure is not drawn, and the histogram, the
  sample list and the log are the ones it was given.
\<close>

theorem update_chart_without_samples:
  assumes "message_lengths s = []"
  shows "update_chart s = (s\<lparr>ax_bars := []\<rparr>, None)"
  using assms by (simp add: update_chart_def Let_def)

theorem update_chart_without_samples_witness:
  "message_lengths initial_state = [] \<and> update_chart initial_state = (initial_state, None)"
proof -
  have a: "message_lengths initial_state = []" by (simp add: initial_state_def)
  show ?thesis
    using a update_chart_without_samples [OF a] by (simp add: initial_state_def)
qed

text \<open>
  C10, as stated, fails on a value that is present and unhashable: the list
  \<^verbatim>\<open>[1, 2]\<close> is appended to the sample list, but the lookup in the histogram raises
  TypeError and the value never becomes a key.
\<close>

theorem unhashable_length_counterexample:
  "message_lengths (fst (process_message initial_state
       (JObject [(''message_length'', JList [JInt 1, JInt 2])]))) = [JList [JInt 1, JInt 2]] \<and>
   length_counts (fst (process_message initial_state
       (JObject [(''message_length'', JList [JInt 1, JInt 2])]))) = [] \<and>
   snd (process_message initial_state
       (JObject [(''message_length'', JList [JInt 1, JInt 2])])) = Some TypeError"
  by (simp add: process_message_def dict_get_def add_log_def initial_state_def Let_def)

text \<open>
  C10, amended. When the key \<^verbatim>\<open>message_length\<close> is present in the message object, its
  value, whatever it is, is appended to the sample list as it is, and the default 0 plays
  no part. A hashable value (null, a boolean, an integer of either sign, a string) is the
  histogram key: the count of its bucket grows by one, and a value with no bucket yet is
  added as a new key with the count 1. An unhashable value (an array or an object) leaves
  the histogram as it was, and the call raises TypeError.
\<close>

theorem present_length_used_as_it_is:
  assumes "map_of d ''message_length'' = Some v"
  shows "message_lengths (fst (process_message s (JObject d))) = message_lengths s @ [v] \<and>
         (if hashable v
          then length_counts (fst (process_message s (JObject d))) =
                 (if dict_contains (length_counts s) v
                  then dict_setitem (length_counts s) v (count_of (length_counts s) v + 1)
                  else length_counts s @ [(v, 1)]) \<and>
               count_of (length_counts (fst (process_message s (JObject d)))) v =
                 count_of (length_counts s) v + 1
          else length_counts (fst (process_message s (JObject d))) = length_counts s \<and>
               snd (process_message s (JObject d)) = Some TypeError)"
proof -
  have v: "dict_get d ''message_length'' (JInt 0) = v"
    using assms by (simp add: dict_get_def)
  have l: "message_lengths (fst (process_message s (JObject d))) = message_lengths s @ [v]"
    using process_message_lengths [of s d] v by simp
  show ?thesis
  proof (cases "hashable v")
    case True
    then have h: "hashable (dict_get d ''message_length'' (JInt 0))" by (simp add: v)
    have c: "length_counts (fst (process_message s (JObject d))) =
               dict_setitem (length_counts s) v (count_of (length_counts s) v + 1)"
      using process_message_counts_hashable [OF h, of s] v by simp
    have n: "\<not> dict_contains (length_counts s) v \<Longrightarrow>
               dict_setitem (length_counts s) v (count_of (length_counts s) v + 1) =
                 length_counts s @ [(v, 1)]"
      by (simp add: setitem_new count_of_def dict_contains_getitem)
    have b: "count_of (length_counts (fst (process_message s (JObject d)))) v =
               count_of (length_counts s) v + 1"
      using process_message_bucket [OF h, of s] v by simp
    from True l c n b show ?thesis by simp
  next
    case False
    then have h: "\<not> hashable (dict_get d ''message_length'' (JInt 0))" by (simp add: v)
    from False l process_message_unhashable [OF h, of s] show ?thesis by simp
  qed
qed

theorem present_length_used_as_it_is_witness:
  "map_of [(''message_length'', JNull)] ''message_length'' = Some JNull \<and>
   message_lengths (fst (process_message initial_state (JObject [(''message_length'', JNull)]))) =
     [JNull] \<and>
   length_counts (fst (process_message initial_state (JObject [(''message_length'', JNull)]))) =
     [(JNull, 1)] \<and>
   count_of (length_counts (fst (process_message initial_state
       (JObject [(''message_length'', JNull)])))) JNull = 1"
proof -
  have a: "map_of [(''message_length'', JNull)] ''message_length'' = Some JNull" by simp
  have i: "length_counts initial_state = []" "message_lengths initial_state = []"
    by (simp_all add: initial_state_def)
  have c: "count_of [] JNull = 0" "count_of [(JNull, 1)] JNull = 1"
    by (simp_all add: count_of_def py_eq_def)
  show ?thesis
    using a present_length_used_as_it_is [OF a, of initial_state] by (simp add: i c)
qed






text \<open>
  C8. A data file of three records that decode to message objects with the lengths 1, 2
  and 2, read in file mode from a state with an empty histogram, gives exactly the
  histogram \<^verbatim>\<open>{1: 1, 2: 2}\<close> (in insertion order), with the three lengths appended to
  the sample list.
\<close>

theorem file_lengths_1_2_2:
  assumes "DATA_FILE w = Lines [l1, l2, l3]"
    and "loads_line w l1 = Some (JObject d1)" and "map_of d1 ''message_length'' = Some (JInt 1)"
    and "loads_line w l2 = Some (JObject d2)" and "map_of d2 ''message_length'' = Some (JInt 2)"
    and "loads_line w l3 = Some (JObject d3)" and "map_of d3 ''message_length'' = Some (JInt 2)"
    and "length_counts s = []"
  shows "length_counts (fst (consume_from_file w s)) = [(JInt 1, 1), (JInt 2, 2)] \<and>
         message_lengths (fst (consume_from_file w s)) =
           message_lengths s @ [JInt 1, JInt 2, JInt 2]"
proof -
  let ?p = "loads_line w"
  let ?s0 = "add_log Info_reading s"
  let ?s1 = "fst (process_message (add_log (Info_read (JObject d1)) ?s0) (JObject d1))"
  let ?s2 = "fst (process_message (add_log (Info_read (JObject d2)) ?s1) (JObject d2))"
  let ?s3 = "fst (process_message (add_log (Info_read (JObject d3)) ?s2) (JObject d3))"
  have c0: "length_counts ?s0 = []" "message_lengths ?s0 = message_lengths s"
    using assms(8) by (simp_all add: add_log_def)
  have n0: "list_all is_num (map fst (length_counts ?s0))"
    by (simp add: c0)
  note st1 = file_loop_step [where loads = "loads_line w" and l = l1, OF assms(2) n0 assms(3)]
  have c1: "length_counts ?s1 = [(JInt 1, 1)]"
    using st1(2) by (simp add: c0 count_of_def)
  have n1: "list_all is_num (map fst (length_counts ?s1))"
    by (simp add: c1)
  note st2 = file_loop_step [where loads = "loads_line w" and l = l2, OF assms(4) n1 assms(5)]
  have c2: "length_counts ?s2 = [(JInt 1, 1), (JInt 2, 1)]"
    using st2(2) by (simp add: c1 count_of_def py_eq_def)
  have n2: "list_all is_num (map fst (length_counts ?s2))"
    by (simp add: c2)
  note st3 = file_loop_step [where loads = "loads_line w" and l = l3, OF assms(6) n2 assms(7)]
  have c3: "length_counts ?s3 = [(JInt 1, 1), (JInt 2, 2)]"
    using st3(2) by (simp add: c2 count_of_def py_eq_def)
  have m3: "message_lengths ?s3 = message_lengths s @ [JInt 1, JInt 2, JInt 2]"
    by (simp add: st3(3) st2(3) st1(3) c0)
  have "file_loop ?p ?s0 [l1, l2, l3] = (?s3, None)"
    by (simp only: st1(1) st2(1) st3(1) file_loop.simps(1))
  then have "consume_from_file w s = (?s3, None)"
    using assms(1) by (simp add: consume_from_file_def except_log_def)
  then show ?thesis
    using c3 m3 by simp
qed


theorem file_lengths_1_2_2_witness:
  \<open>let one = ''{"message": "a", "message_length": 1}'';
       two = ''{"message": "bb", "message_length": 2}'';
       w = \<lparr>KAFKA_AVAILABLE = False, kafka_broker = Unreachable,
            DATA_FILE = Lines [one, two, two],
            loads_line = map_of
              [(one, JObject [(''message'', JStr ''a''), (''message_length'', JInt 1)]),
               (two, JObject [(''message'', JStr ''bb''), (''message_length'', JInt 2)])],
            value_deserializer = map_of []\<rparr>
   in DATA_FILE w = Lines [one, two, two] \<and>
      loads_line w one = Some (JObject [(''message'', JStr ''a''), (''message_length'', JInt 1)]) \<and>
      loads_line w two = Some (JObject [(''message'', JStr ''bb''), (''message_length'', JInt 2)]) \<and>
      length_counts initial_state = [] \<and>
      length_counts (fst (consume_from_file w initial_state)) = [(JInt 1, 1), (JInt 2, 2)] \<and>
      message_lengths (fst (consume_from_file w initial_state)) = [JInt 1, JInt 2, JInt 2]\<close>
proof -
  define one where \<open>one = ''{"message": "a", "message_length": 1}''\<close>
  define two where \<open>two = ''{"message": "bb", "message_length": 2}''\<close>
  define w where "w = \<lparr>KAFKA_AVAILABLE = False, kafka_broker = Unreachable,
            DATA_FILE = Lines [one, two, two],
            loads_line = map_of
              [(one, JObject [(''message'', JStr ''a''), (''message_length'', JInt 1)]),
               (two, JObject [(''message'', JStr ''bb''), (''message_length'', JInt 2)])],
            value_deserializer = map_of []\<rparr>"
  have f: "DATA_FILE w = Lines [one, two, two]"
    by (simp add: w_def)
  have p1: "loads_line w one =
      Some (JObject [(''message'', JStr ''a''), (''message_length'', JInt 1)])"
    by (simp add: w_def)
  have p2: "loads_line w two =
      Some (JObject [(''message'', JStr ''bb''), (''message_length'', JInt 2)])"
    by (simp add: w_def one_def two_def)
  have m1: "map_of [(''message'', JStr ''a''), (''message_length'', JInt 1)] ''message_length'' =
      Some (JInt 1)"
    by simp
  have m2: "map_of [(''message'', JStr ''bb''), (''message_length'', JInt 2)] ''message_length'' =
      Some (JInt 2)"
    by simp
  have i: "length_counts initial_state = []" "message_lengths initial_state = []"
    by (simp_all add: initial_state_def)
  have "DATA_FILE w = Lines [one, two, two] \<and>
      loads_line w one = Some (JObject [(''message'', JStr ''a''), (''message_length'', JInt 1)]) \<and>
      loads_line w two = Some (JObject [(''message'', JStr ''bb''), (''message_length'', JInt 2)]) \<and>
      length_counts initial_state = [] \<and>
      length_counts (fst (consume_from_file w initial_state)) = [(JInt 1, 1), (JInt 2, 2)] \<and>
      message_lengths (fst (consume_from_file w initial_state)) = [JInt 1, JInt 2, JInt 2]"
    using f p1 p2 i file_lengths_1_2_2 [OF f p1 m1 p2 m2 p2 m2 i(1)] by simp
  then show ?thesis
    unfolding Let_def w_def one_def two_def .
qed

text \<open>
  C2, as stated, fails on the code: with the library installed and the broker unreachable,
  the run logs the Kafka error and ends with nothing processed, although reading the data
  file would have processed its record.
\<close>

theorem no_fallback_after_kafka_failure_counterexample:
  "KAFKA_AVAILABLE unreachable_broker_world \<and>
   kafka_broker unreachable_broker_world = Unreachable \<and>
   message_lengths (fst (consume_from_file unreachable_broker_world
       (add_log Info_start initial_state))) = [JInt 5] \<and>
   main unreachable_broker_world =
     (\<lparr>message_lengths = [], length_counts = [], ax_bars = [], draws = 0,
       logged = [Info_start, Err_kafka KafkaError]\<rparr>, None)"
  by (simp add: unreachable_broker_world_def main_def consume_from_kafka_def
      consume_from_file_def except_log_def process_message_def update_chart_def py_sorted_def
      dict_get_def add_log_def initial_state_def py_eq_def Let_def)

text \<open>
  C2, amended. The source is chosen once, by the availability of the Kafka library alone.
  When the library is available the run is the live consumption and nothing else: it does
  not depend on the data file or on how its lines decode, and when the broker cannot be
  reached it logs the error and ends with nothing processed, without reading the file.
  When the library is not available the run is the file consumption (after the fallback
  warning), and does not depend on the broker.
\<close>

theorem source_chosen_by_library_only:
  "(KAFKA_AVAILABLE w \<longrightarrow>
      main (w\<lparr>DATA_FILE := f, loads_line := p\<rparr>) = main w \<and>
      (kafka_broker w = Unreachable \<longrightarrow>
         main w =
           (\<lparr>message_lengths = [], length_counts = [], ax_bars = [], draws = 0,
             logged = [Info_start, Err_kafka KafkaError]\<rparr>, None))) \<and>
   (\<not> KAFKA_AVAILABLE w \<longrightarrow>
      main (w\<lparr>kafka_broker := b, value_deserializer := q\<rparr>) = main w \<and>
      main w = consume_from_file w (add_log Warn_fallback (add_log Info_start initial_state)))"
proof -
  have a: "KAFKA_AVAILABLE w \<longrightarrow> main (w\<lparr>DATA_FILE := f, loads_line := p\<rparr>) = main w"
    by (simp add: main_def consume_from_kafka_def Let_def split: broker.splits)
  have b: "KAFKA_AVAILABLE w \<longrightarrow> kafka_broker w = Unreachable \<longrightarrow>
         main w =
           (\<lparr>message_lengths = [], length_counts = [], ax_bars = [], draws = 0,
             logged = [Info_start, Err_kafka KafkaError]\<rparr>, None)"
    by (simp add: main_def consume_from_kafka_def except_log_def add_log_def
        initial_state_def Let_def)
  have c: "\<not> KAFKA_AVAILABLE w \<longrightarrow>
      main (w\<lparr>kafka_broker := b, value_deserializer := q\<rparr>) = main w"
    by (simp add: main_def consume_from_file_def Let_def split: data_file.splits)
  have d: "\<not> KAFKA_AVAILABLE w \<longrightarrow>
      main w = consume_from_file w (add_log Warn_fallback (add_log Info_start initial_state))"
    by (simp add: main_def Let_def)
  from a b c d show ?thesis by blast
qed


theorem source_chosen_by_library_only_witness:
  "KAFKA_AVAILABLE unreachable_broker_world \<and>
   kafka_broker unreachable_broker_world = Unreachable \<and>
   main (unreachable_broker_world\<lparr>DATA_FILE := Absent, loads_line := map_of []\<rparr>) =
     main unreachable_broker_world \<and>
   main unreachable_broker_world =
     (\<lparr>message_lengths = [], length_counts = [], ax_bars = [], draws = 0,
       logged = [Info_start, Err_kafka KafkaError]\<rparr>, None) \<and>
   \<not> KAFKA_AVAILABLE (unreachable_broker_world\<lparr>KAFKA_AVAILABLE := False\<rparr>) \<and>
   main (unreachable_broker_world
          \<lparr>KAFKA_AVAILABLE := False, kafka_broker := Serving [], value_deserializer := map_of []\<rparr>) =
     main (unreachable_broker_world\<lparr>KAFKA_AVAILABLE := False\<rparr>) \<and>
   main (unreachable_broker_world\<lparr>KAFKA_AVAILABLE := False\<rparr>) =
     consume_from_file (unreachable_broker_world\<lparr>KAFKA_AVAILABLE := False\<rparr>)
       (add_log Warn_fallback (add_log Info_start initial_state))"
proof -
  have a: "KAFKA_AVAILABLE unreachable_broker_world"
    "kafka_broker unreachable_broker_world = Unreachable"
    by (simp_all add: unreachable_broker_world_def)
  have b: "\<not> KAFKA_AVAILABLE (unreachable_broker_world\<lparr>KAFKA_AVAILABLE := False\<rparr>)"
    by simp
  show ?thesis
    using a b
      source_chosen_by_library_only
        [where w = unreachable_broker_world and f = Absent and p = "map_of []"]
      source_chosen_by_library_only
        [where w = "unreachable_broker_world\<lparr>KAFKA_AVAILABLE := False\<rparr>"
           and b = "Serving []" and q = "map_of []"]
    by simp
qed

end
